theory Spec2Isabelle
  imports Complex_Main "HOL-Library.Code_Target_Nat"
begin

section \<open>JavaScript values\<close>

text \<open>
  A JavaScript string is a sequence of UTF-16 code units; the regular expressions of the
  program (none carries the \<^verbatim>\<open>u\<close> flag) work on code units too.  A code unit is a
  natural number, a string a list of them, and \<open>js\<close> turns an ASCII literal into one.
\<close>

type_synonym jsstring = "nat list"

definition js :: "string \<Rightarrow> jsstring" where
  "js s = map of_char s"

text \<open>
  A JavaScript number is NaN, one of the two infinities, or a finite value.  Finite values
  are modelled as reals and their arithmetic as exact: rounding to the nearest double,
  overflow and the sign of zero are left out.
\<close>

datatype jsnum = NaN | PosInf | NegInf | Fin real

datatype jsval = Undefined | Null | Bool bool | Num jsnum | Str jsstring

fun is_number :: "jsval \<Rightarrow> bool" where
  "is_number (Num _) = True"
| "is_number _ = False"

fun isNaN :: "jsnum \<Rightarrow> bool" where
  "isNaN NaN = True"
| "isNaN _ = False"

text \<open>The relational operators on numbers: every comparison with NaN is false.\<close>

fun js_lt :: "jsnum \<Rightarrow> jsnum \<Rightarrow> bool" where
  "js_lt NaN _ = False"
| "js_lt _ NaN = False"
| "js_lt (Fin a) (Fin b) = (a < b)"
| "js_lt _ NegInf = False"
| "js_lt NegInf _ = True"
| "js_lt PosInf _ = False"
| "js_lt (Fin _) PosInf = True"

definition js_eq :: "jsnum \<Rightarrow> jsnum \<Rightarrow> bool" where
  "js_eq a b = (a = b \<and> \<not> isNaN a)"

definition js_le :: "jsnum \<Rightarrow> jsnum \<Rightarrow> bool" where
  "js_le a b = (js_lt a b \<or> js_eq a b)"

definition js_gt :: "jsnum \<Rightarrow> jsnum \<Rightarrow> bool" where
  "js_gt a b = js_lt b a"

definition js_ge :: "jsnum \<Rightarrow> jsnum \<Rightarrow> bool" where
  "js_ge a b = js_le b a"

text \<open>Multiplication, division and remainder, with the special values of IEEE 754.\<close>

fun js_mul :: "jsnum \<Rightarrow> jsnum \<Rightarrow> jsnum" where
  "js_mul NaN _ = NaN"
| "js_mul _ NaN = NaN"
| "js_mul (Fin a) (Fin b) = Fin (a * b)"
| "js_mul (Fin a) PosInf = (if a = 0 then NaN else if 0 < a then PosInf else NegInf)"
| "js_mul (Fin a) NegInf = (if a = 0 then NaN else if 0 < a then NegInf else PosInf)"
| "js_mul PosInf (Fin b) = (if b = 0 then NaN else if 0 < b then PosInf else NegInf)"
| "js_mul NegInf (Fin b) = (if b = 0 then NaN else if 0 < b then NegInf else PosInf)"
| "js_mul PosInf PosInf = PosInf"
| "js_mul NegInf NegInf = PosInf"
| "js_mul PosInf NegInf = NegInf"
| "js_mul NegInf PosInf = NegInf"

fun js_div :: "jsnum \<Rightarrow> jsnum \<Rightarrow> jsnum" where
  "js_div NaN _ = NaN"
| "js_div _ NaN = NaN"
| "js_div (Fin a) (Fin b) =
     (if b = 0 then (if a = 0 then NaN else if 0 < a then PosInf else NegInf)
      else Fin (a / b))"
| "js_div (Fin _) PosInf = Fin 0"
| "js_div (Fin _) NegInf = Fin 0"
| "js_div PosInf (Fin b) = (if 0 \<le> b then PosInf else NegInf)"
| "js_div NegInf (Fin b) = (if 0 \<le> b then NegInf else PosInf)"
| "js_div _ _ = NaN"

fun js_rem :: "jsnum \<Rightarrow> jsnum \<Rightarrow> jsnum" where
  "js_rem (Fin a) (Fin b) =
     (if b = 0 then NaN
      else Fin (a - b * of_int (if 0 \<le> a / b then \<lfloor>a / b\<rfloor> else \<lceil>a / b\<rceil>)))"
| "js_rem (Fin a) PosInf = Fin a"
| "js_rem (Fin a) NegInf = Fin a"
| "js_rem _ _ = NaN"

text \<open>\<^verbatim>\<open>Math.round\<close>: the nearest integer, a tie going up.\<close>

fun Math_round :: "jsnum \<Rightarrow> jsnum" where
  "Math_round (Fin a) = Fin (of_int \<lfloor>a + 1 / 2\<rfloor>)"
| "Math_round x = x"

subsection \<open>Numbers to strings\<close>

fun string_of_nat :: "nat \<Rightarrow> jsstring" where
  "string_of_nat n =
     (if n < 10 then [48 + n] else string_of_nat (n div 10) @ [48 + n mod 10])"

declare string_of_nat.simps [simp del]

fun strip_zeros :: "jsstring \<Rightarrow> jsstring" where
  "strip_zeros ds = rev (dropWhile (\<lambda>d. d = 48) (rev ds))"

text \<open>
  The decimal text of \<open>k / 2\<close>, as \<^verbatim>\<open>Number.prototype.toString\<close> writes it: the digits
  of the integer part, \<^verbatim>\<open>.5\<close> when \<open>k\<close> is odd, and the exponent form from \<open>10^21\<close> on.
\<close>

definition string_of_halves :: "nat \<Rightarrow> jsstring" where
  "string_of_halves k =
     (let n = k div 2;
          ds = string_of_nat n;
          fr = (if odd k then js ''5'' else [])
      in if n < 10 ^ 21 then ds @ (if fr = [] then [] else js ''.'' @ fr)
         else (let sig = strip_zeros (ds @ fr)
               in take 1 sig @ (if drop 1 sig = [] then [] else js ''.'' @ drop 1 sig)
                  @ js ''e+'' @ string_of_nat (length ds - 1)))"

text \<open>
  \<^verbatim>\<open>String(x)\<close> for a number.  The finite values this program turns into text are the
  multiples of one half that \<^verbatim>\<open>Math.round(hours * 2) / 2\<close> yields; on them the function
  is exact, other finite values are cut to the multiple of one half below their magnitude.
\<close>

fun js_number_to_string :: "jsnum \<Rightarrow> jsstring" where
  "js_number_to_string NaN = js ''NaN''"
| "js_number_to_string PosInf = js ''Infinity''"
| "js_number_to_string NegInf = js ''-Infinity''"
| "js_number_to_string (Fin r) =
     (if r < 0 then js ''-'' else []) @ string_of_halves (nat \<lfloor>2 * \<bar>r\<bar>\<rfloor>)"

section \<open>Converter (scripts/converter.js)\<close>

text \<open>\<^verbatim>\<open>calculateHours(price, hourlyWage)\<close>; \<open>None\<close> is the \<^verbatim>\<open>null\<close> it returns.\<close>

fun calculateHours :: "jsval \<Rightarrow> jsval \<Rightarrow> jsnum option" where
  "calculateHours (Num price) (Num hourlyWage) =
     (if isNaN price \<or> isNaN hourlyWage \<or> js_lt price (Fin 0) \<or> js_le hourlyWage (Fin 0)
      then None
      else Some (js_div price hourlyWage))"
| "calculateHours _ _ = None"

text \<open>
  \<^verbatim>\<open>formatHours(hours)\<close> on what \<^verbatim>\<open>calculateHours\<close> hands it, a number or \<^verbatim>\<open>null\<close>.
  The unused \<^verbatim>\<open>options\<close> parameter is dropped.
\<close>

definition formatHours :: "jsnum option \<Rightarrow> jsstring" where
  "formatHours hours =
     (case hours of
        None \<Rightarrow> js ''N/A''
      | Some h \<Rightarrow>
          if isNaN h \<or> js_lt h (Fin 0) then js ''N/A''
          else
            (let roundedToHalfHour = js_div (Math_round (js_mul h (Fin 2))) (Fin 2)
             in if js_lt roundedToHalfHour (Fin (1 / 4)) then js ''< 0.5h''
                else if js_eq (js_rem roundedToHalfHour (Fin 1)) (Fin 0)
                     then js_number_to_string roundedToHalfHour @ js ''h''
                     else js_number_to_string roundedToHalfHour @ js ''h''))"

definition convertPriceToHours :: "jsval \<Rightarrow> jsval \<Rightarrow> jsstring" where
  "convertPriceToHours price hourlyWage = formatHours (calculateHours price hourlyWage)"



text \<open>
  Tier settings.  A threshold that is missing or not a number compares like NaN, so the
  three fields are numbers; \<open>None\<close> stands for settings that are \<^verbatim>\<open>null\<close> or undefined.
\<close>

datatype tier_type = Money | Hours

record tier_settings =
  ttype :: tier_type
  green :: jsnum
  yellow :: jsnum
  red :: jsnum

definition getTierColor :: "jsval \<Rightarrow> tier_settings option \<Rightarrow> jsstring" where
  "getTierColor v tierSettings =
     (case tierSettings of
        None \<Rightarrow> js ''yellow''
      | Some ts \<Rightarrow>
          (case v of
             Num val \<Rightarrow>
               if isNaN val then js ''yellow''
               else if js_eq (green ts) (Fin 0) \<and> js_eq val (Fin 0) then js ''green''
               else if js_lt val (green ts) then js ''green''
               else if js_ge val (green ts) \<and> js_le val (yellow ts) then js ''yellow''
               else if js_gt val (yellow ts) then js ''red''
               else js ''yellow''
           | _ \<Rightarrow> js ''yellow''))"

fun getTierBackgroundColor :: "jsstring \<Rightarrow> jsstring" where
  "getTierBackgroundColor tier =
     (if tier = js ''green'' then js ''#d4edda''
      else if tier = js ''yellow'' then js ''#fef3c7''
      else if tier = js ''red'' then js ''#f8d7da''
      else js ''#fef3c7'')"

section \<open>Strings and regular expressions\<close>

fun starts_with :: "jsstring \<Rightarrow> jsstring \<Rightarrow> bool" where
  "starts_with _ [] = True"
| "starts_with [] (_ # _) = False"
| "starts_with (c # s) (d # w) = (c = d \<and> starts_with s w)"

text \<open>\<^verbatim>\<open>hay.includes(needle)\<close>.\<close>

fun js_includes :: "jsstring \<Rightarrow> jsstring \<Rightarrow> bool" where
  "js_includes [] needle = (needle = [])"
| "js_includes (c # s) needle = (starts_with (c # s) needle \<or> js_includes s needle)"

text \<open>
  \<^verbatim>\<open>toLowerCase\<close>.  The ASCII capitals map to their small letters; of the other code
  units, only the Kelvin sign and the dotted capital I have an ASCII letter in their
  lower-case form.  Every other letter outside ASCII has a lower-case form outside ASCII
  and is kept as it is: the program only searches lower-cased text for ASCII words.
\<close>

definition lower_unit :: "nat \<Rightarrow> jsstring" where
  "lower_unit c =
     (if 65 \<le> c \<and> c \<le> 90 then [c + 32]
      else if c = 8490 then [107]
      else if c = 304 then [105, 775]
      else [c])"

definition toLowerCase :: "jsstring \<Rightarrow> jsstring" where
  "toLowerCase s = concat (map lower_unit s)"

text \<open>White space and line terminators: what \<^verbatim>\<open>\s\<close> matches and \<^verbatim>\<open>trim\<close> removes.\<close>

definition ws_ranges :: "(nat \<times> nat) list" where
  "ws_ranges = [(9, 13), (32, 32), (160, 160), (5760, 5760), (8192, 8202), (8232, 8233),
     (8239, 8239), (8287, 8287), (12288, 12288), (65279, 65279)]"

definition in_ranges :: "nat \<Rightarrow> (nat \<times> nat) list \<Rightarrow> bool" where
  "in_ranges c rs = list_ex (\<lambda>(lo, hi). lo \<le> c \<and> c \<le> hi) rs"

definition is_space :: "nat \<Rightarrow> bool" where
  "is_space c = in_ranges c ws_ranges"

definition is_digit :: "nat \<Rightarrow> bool" where
  "is_digit c = (48 \<le> c \<and> c \<le> 57)"

definition trim :: "jsstring \<Rightarrow> jsstring" where
  "trim s = rev (dropWhile is_space (rev (dropWhile is_space s)))"

text \<open>
  The regular expressions of the program, as syntax trees.  A character class is a list
  of inclusive ranges of code units; \<open>Look\<close> is the lookahead \<^verbatim>\<open>(?=...)\<close>; \<open>Opt\<close> and
  \<open>Star\<close> are greedy.
\<close>

datatype rx =
    Eps
  | Cls "(nat \<times> nat) list"
  | Seq rx rx
  | Alt rx rx
  | Opt rx
  | Star rx
  | Look rx

text \<open>
  \<open>rx_ends r s\<close> lists what remains of \<open>s\<close> after each way of matching \<open>r\<close> at its start,
  in the order in which a backtracking matcher tries them.  An iteration of \<open>Star\<close> that
  consumes nothing is not repeated.
\<close>

function (sequential) rx_ends :: "rx \<Rightarrow> jsstring \<Rightarrow> jsstring list" where
  "rx_ends Eps s = [s]"
| "rx_ends (Cls rs) [] = []"
| "rx_ends (Cls rs) (c # s) = (if in_ranges c rs then [s] else [])"
| "rx_ends (Seq a b) s = concat (map (rx_ends b) (rx_ends a s))"
| "rx_ends (Alt a b) s = rx_ends a s @ rx_ends b s"
| "rx_ends (Opt a) s = rx_ends a s @ [s]"
| "rx_ends (Star a) s =
     concat (map (rx_ends (Star a)) (filter (\<lambda>t. length t < length s) (rx_ends a s))) @ [s]"
| "rx_ends (Look a) s = (if rx_ends a s = [] then [] else [s])"
  by pat_completeness auto
termination
  by (relation "measures [\<lambda>(r, s). size r, \<lambda>(r, s). length s]") auto

text \<open>\<^verbatim>\<open>r.test(s)\<close> for an expression without the \<^verbatim>\<open>g\<close> flag: a match at some position.\<close>

fun rx_test :: "rx \<Rightarrow> jsstring \<Rightarrow> bool" where
  "rx_test r [] = (rx_ends r [] \<noteq> [])"
| "rx_test r (c # s) = (rx_ends r (c # s) \<noteq> [] \<or> rx_test r s)"

text \<open>The same for an expression that begins with \<^verbatim>\<open>^\<close>: a match at the start only.\<close>

definition rx_test_start :: "rx \<Rightarrow> jsstring \<Rightarrow> bool" where
  "rx_test_start r s = (rx_ends r s \<noteq> [])"

text \<open>
  \<^verbatim>\<open>s.match(r)\<close> for an expression with the \<^verbatim>\<open>g\<close> flag: the matched substrings from
  left to right (the empty list is the \<^verbatim>\<open>null\<close> of no match).  After an empty match the
  search moves one code unit on.
\<close>

function rx_match_all :: "rx \<Rightarrow> jsstring \<Rightarrow> jsstring list" where
  "rx_match_all r s =
     (case rx_ends r s of
        [] \<Rightarrow> (case s of [] \<Rightarrow> [] | _ # t \<Rightarrow> rx_match_all r t)
      | e # _ \<Rightarrow>
          if length e < length s then take (length s - length e) s # rx_match_all r e
          else [] # (case s of [] \<Rightarrow> [] | _ # t \<Rightarrow> rx_match_all r t))"
  by pat_completeness auto
termination
  by (relation "measure (\<lambda>(r, s). length s)") auto

text \<open>\<^verbatim>\<open>s.replace(r, rep)\<close> for an expression with the \<^verbatim>\<open>g\<close> flag.\<close>

function rx_replace_all :: "rx \<Rightarrow> jsstring \<Rightarrow> jsstring \<Rightarrow> jsstring" where
  "rx_replace_all r rep s =
     (case rx_ends r s of
        [] \<Rightarrow> (case s of [] \<Rightarrow> [] | c # t \<Rightarrow> c # rx_replace_all r rep t)
      | e # _ \<Rightarrow>
          if length e < length s then rep @ rx_replace_all r rep e
          else rep @ (case s of [] \<Rightarrow> [] | c # t \<Rightarrow> c # rx_replace_all r rep t))"
  by pat_completeness auto
termination
  by (relation "measure (\<lambda>(r, rep, s). length s)") auto

declare rx_match_all.simps [simp del] rx_replace_all.simps [simp del]

text \<open>\<^verbatim>\<open>s.replace(pat, rep)\<close> for a string pattern: the first occurrence only.\<close>

fun replace_first :: "jsstring \<Rightarrow> jsstring \<Rightarrow> jsstring \<Rightarrow> jsstring" where
  "replace_first pat rep [] = (if pat = [] then rep else [])"
| "replace_first pat rep (c # s) =
     (if starts_with (c # s) pat then rep @ drop (length pat) (c # s)
      else c # replace_first pat rep s)"

text \<open>Building blocks: literals, with and without the \<^verbatim>\<open>i\<close> flag, and repetition.\<close>

definition rx_unit :: "nat \<Rightarrow> rx" where
  "rx_unit c = Cls [(c, c)]"

definition rx_unit_i :: "nat \<Rightarrow> rx" where
  "rx_unit_i c =
     (if 65 \<le> c \<and> c \<le> 90 then Cls [(c, c), (c + 32, c + 32)]
      else if 97 \<le> c \<and> c \<le> 122 then Cls [(c, c), (c - 32, c - 32)]
      else Cls [(c, c)])"

definition rx_seqs :: "rx list \<Rightarrow> rx" where
  "rx_seqs rs = foldr Seq rs Eps"

fun rx_alts :: "rx list \<Rightarrow> rx" where
  "rx_alts [] = Cls []"
| "rx_alts [r] = r"
| "rx_alts (r # rs) = Alt r (rx_alts rs)"

definition rx_lit :: "string \<Rightarrow> rx" where
  "rx_lit w = rx_seqs (map rx_unit (js w))"

definition rx_lit_i :: "string \<Rightarrow> rx" where
  "rx_lit_i w = rx_seqs (map rx_unit_i (js w))"

definition rx_words_i :: "string list \<Rightarrow> rx" where
  "rx_words_i ws = rx_alts (map rx_lit_i ws)"

definition rx_plus :: "rx \<Rightarrow> rx" where
  "rx_plus r = Seq r (Star r)"

definition rx_digit :: rx where
  "rx_digit = Cls [(48, 57)]"

definition rx_space :: rx where
  "rx_space = Cls ws_ranges"

text \<open>The class \<^verbatim>\<open>[$\<euro>\<pounds>\<yen>]\<close>: dollar, euro, pound and yen signs.\<close>

definition currency_ranges :: "(nat \<times> nat) list" where
  "currency_ranges = [(36, 36), (8364, 8364), (163, 163), (165, 165)]"

definition rx_currency :: rx where
  "rx_currency = Cls currency_ranges"

section \<open>The document\<close>

text \<open>
  The page is a tree of element and text nodes.  Every node carries a handle, the identity
  that a JavaScript reference to it has; an element has a tag name, attributes (among
  them \<^verbatim>\<open>class\<close> and \<^verbatim>\<open>id\<close>), the declarations of its inline style, and the computed
  style the browser reports for it, which the model takes as given.  All elements are
  HTML elements, whose \<^verbatim>\<open>className\<close> is a string.
\<close>

record einfo =
  tagName :: jsstring
  attrs :: "(jsstring \<times> jsstring) list"
  style :: "(jsstring \<times> jsstring) list"
  computed :: "(jsstring \<times> jsstring) list"

datatype node = TextNode nat jsstring | Element nat einfo "node list"

type_synonym located = "node \<times> node list"

record document =
  root :: node
  body :: nat

fun node_id :: "node \<Rightarrow> nat" where
  "node_id (TextNode i _) = i"
| "node_id (Element i _ _) = i"

fun is_element :: "node \<Rightarrow> bool" where
  "is_element (Element _ _ _) = True"
| "is_element (TextNode _ _) = False"

fun info :: "node \<Rightarrow> einfo" where
  "info (Element _ e _) = e"
| "info (TextNode _ _) = \<lparr>tagName = [], attrs = [], style = [], computed = []\<rparr>"


fun textContent :: "node \<Rightarrow> jsstring" where
  "textContent (TextNode _ d) = d"
| "textContent (Element _ _ ks) = concat (map textContent ks)"

definition getAttribute :: "einfo \<Rightarrow> jsstring \<Rightarrow> jsstring option" where
  "getAttribute e name = map_of (attrs e) name"

definition hasAttribute :: "einfo \<Rightarrow> jsstring \<Rightarrow> bool" where
  "hasAttribute e name = (getAttribute e name \<noteq> None)"

definition className :: "einfo \<Rightarrow> jsstring" where
  "className e = (case getAttribute e (js ''class'') of None \<Rightarrow> [] | Some v \<Rightarrow> v)"

definition elem_id :: "einfo \<Rightarrow> jsstring" where
  "elem_id e = (case getAttribute e (js ''id'') of None \<Rightarrow> [] | Some v \<Rightarrow> v)"

text \<open>The tokens of a \<^verbatim>\<open>class\<close> attribute, separated by ASCII white space.\<close>

definition is_html_space :: "nat \<Rightarrow> bool" where
  "is_html_space c = (c = 9 \<or> c = 10 \<or> c = 12 \<or> c = 13 \<or> c = 32)"

fun tokens_from :: "jsstring \<Rightarrow> jsstring \<Rightarrow> jsstring list" where
  "tokens_from cur [] = (if cur = [] then [] else [cur])"
| "tokens_from cur (c # s) =
     (if is_html_space c then (if cur = [] then tokens_from [] s else cur # tokens_from [] s)
      else tokens_from (cur @ [c]) s)"

definition classList_contains :: "einfo \<Rightarrow> jsstring \<Rightarrow> bool" where
  "classList_contains e tok = (tok \<in> set (tokens_from [] (className e)))"

text \<open>Every node of a tree in document order, each with its ancestors, the parent first.\<close>

fun locs :: "node list \<Rightarrow> node \<Rightarrow> located list" where
  "locs anc (TextNode i d) = [(TextNode i d, anc)]"
| "locs anc (Element i e ks) =
     (Element i e ks, anc) # concat (map (locs (Element i e ks # anc)) ks)"




subsection \<open>Selectors\<close>

text \<open>
  The selectors the program uses: a list of alternatives, each a chain of compound
  selectors joined by the descendant combinator and written in source order, each
  compound a list of simple selectors.
\<close>

datatype simple =
    Tag jsstring
  | Cl jsstring
  | Ident jsstring
  | HasAttr jsstring
  | AttrEq jsstring jsstring
  | AttrSub jsstring jsstring
  | Not simple

type_synonym selector = "simple list list list"

fun simple_matches :: "simple \<Rightarrow> einfo \<Rightarrow> bool" where
  "simple_matches (Tag t) e = (tagName e = t)"
| "simple_matches (Cl c) e = classList_contains e c"
| "simple_matches (Ident i) e = (getAttribute e (js ''id'') = Some i)"
| "simple_matches (HasAttr a) e = hasAttribute e a"
| "simple_matches (AttrEq a v) e = (getAttribute e a = Some v)"
| "simple_matches (AttrSub a v) e =
     (case getAttribute e a of None \<Rightarrow> False | Some x \<Rightarrow> v \<noteq> [] \<and> js_includes x v)"
| "simple_matches (Not s) e = (\<not> simple_matches s e)"

definition compound_matches :: "simple list \<Rightarrow> node \<Rightarrow> bool" where
  "compound_matches c n = (is_element n \<and> list_all (\<lambda>s. simple_matches s (info n)) c)"

fun desc_match :: "simple list list \<Rightarrow> node list \<Rightarrow> bool" where
  "desc_match [] _ = True"
| "desc_match (c # cs) [] = False"
| "desc_match (c # cs) (a # anc) =
     ((compound_matches c a \<and> desc_match cs anc) \<or> desc_match (c # cs) anc)"

definition complex_matches :: "simple list list \<Rightarrow> located \<Rightarrow> bool" where
  "complex_matches cx l =
     (case rev cx of
        [] \<Rightarrow> False
      | c # cs \<Rightarrow> compound_matches c (fst l) \<and> desc_match cs (snd l))"

definition selector_matches :: "selector \<Rightarrow> located \<Rightarrow> bool" where
  "selector_matches sel l = list_ex (\<lambda>cx. complex_matches cx l) sel"

definition querySelectorAll :: "document \<Rightarrow> selector \<Rightarrow> located list" where
  "querySelectorAll doc sel = filter (selector_matches sel) (locs [] (root doc))"

fun closest_from :: "selector \<Rightarrow> node \<Rightarrow> node list \<Rightarrow> located option" where
  "closest_from sel n [] = (if selector_matches sel (n, []) then Some (n, []) else None)"
| "closest_from sel n (a # anc) =
     (if selector_matches sel (n, a # anc) then Some (n, a # anc)
      else closest_from sel a anc)"

definition closest :: "located \<Rightarrow> selector \<Rightarrow> located option" where
  "closest l sel = closest_from sel (fst l) (snd l)"

section \<open>Price detection (scripts/price-detector.js)\<close>

text \<open>
  \<^verbatim>\<open>PRICE_PATTERN = /[$\<euro>\<pounds>\<yen>]\s*(\d{1,3}(?:[.,]\d{3})*(?:[.,]\d{2})?)/g\<close>
\<close>

definition PRICE_PATTERN :: rx where
  "PRICE_PATTERN =
     rx_seqs [rx_currency, Star rx_space,
       rx_digit, Opt (Seq rx_digit (Opt rx_digit)),
       Star (rx_seqs [Cls [(46, 46), (44, 44)], rx_digit, rx_digit, rx_digit]),
       Opt (rx_seqs [Cls [(46, 46), (44, 44)], rx_digit, rx_digit])]"

text \<open>
  \<^verbatim>\<open>TIME_PATTERNS\<close>, all with the \<^verbatim>\<open>i\<close> flag:
  \<^verbatim>\<open>/\d+\s*(h|hour|hours|hr|hrs)\s*\d*\s*(m|min|minute|minutes)?/\<close>,
  \<^verbatim>\<open>/\d+\s*(m|min|minute|minutes)\s*(remaining|left|until|to go)?/\<close>,
  \<^verbatim>\<open>/\d+\s*(s|sec|second|seconds)/\<close>, \<^verbatim>\<open>/\d+\s*(d|day|days)/\<close> and
  \<^verbatim>\<open>/(remaining|left|until|expires?|ends?)/\<close>.
\<close>

definition TIME_PATTERNS :: "rx list" where
  "TIME_PATTERNS =
     [rx_seqs [rx_plus rx_digit, Star rx_space,
        rx_words_i [''h'', ''hour'', ''hours'', ''hr'', ''hrs''],
        Star rx_space, Star rx_digit, Star rx_space,
        Opt (rx_words_i [''m'', ''min'', ''minute'', ''minutes''])],
      rx_seqs [rx_plus rx_digit, Star rx_space,
        rx_words_i [''m'', ''min'', ''minute'', ''minutes''],
        Star rx_space,
        Opt (rx_words_i [''remaining'', ''left'', ''until'', ''to go''])],
      rx_seqs [rx_plus rx_digit, Star rx_space,
        rx_words_i [''s'', ''sec'', ''second'', ''seconds'']],
      rx_seqs [rx_plus rx_digit, Star rx_space, rx_words_i [''d'', ''day'', ''days'']],
      rx_alts [rx_lit_i ''remaining'', rx_lit_i ''left'', rx_lit_i ''until'',
        Seq (rx_lit_i ''expire'') (Opt (rx_unit_i 115)),
        Seq (rx_lit_i ''end'') (Opt (rx_unit_i 115))]]"

definition TIME_KEYWORDS :: "jsstring list" where
  "TIME_KEYWORDS = map js [''remaining'', ''left'', ''until'', ''expires'', ''ends'',
     ''deal'', ''duration'', ''countdown'', ''timer'']"

text \<open>\<^verbatim>\<open>isTimeValue(text)\<close> on a string; the empty string is falsy.\<close>

definition isTimeValue :: "jsstring \<Rightarrow> bool" where
  "isTimeValue text =
     (if text = [] then False
      else if list_ex (\<lambda>pattern. rx_test pattern text) TIME_PATTERNS then True
      else if list_ex (\<lambda>keyword. js_includes (toLowerCase text) keyword) TIME_KEYWORDS then True
      else if rx_test_start (rx_seqs [rx_plus rx_digit, Star rx_space,
                                Cls [(104, 104), (109, 109), (115, 115)]]) (trim text)
              \<and> \<not> rx_test rx_currency text
           then True
      else False)"

text \<open>
  \<^verbatim>\<open>PRICE_SELECTORS\<close>, in the order of the source:
  \<^verbatim>\<open>[class*="price"]\<close>, \<^verbatim>\<open>[class*="Price"]\<close>, \<^verbatim>\<open>[id*="price"]\<close>, \<^verbatim>\<open>[id*="Price"]\<close>,
  \<^verbatim>\<open>[data-price]\<close>, \<^verbatim>\<open>[data-testid*="price"]\<close>, \<^verbatim>\<open>.a-price-whole\<close>,
  \<^verbatim>\<open>.a-price .a-offscreen\<close>, \<^verbatim>\<open>[data-a-color="price"]\<close>, \<^verbatim>\<open>.a-price-symbol\<close>,
  \<^verbatim>\<open>.a-price .a-price-whole\<close>, \<^verbatim>\<open>.a-price-range .a-price-whole\<close>,
  \<^verbatim>\<open>[class*="deal"]:not([class*="time"]):not([class*="timer"]):not([class*="countdown"])\<close>,
  \<^verbatim>\<open>.notranslate\<close>, \<^verbatim>\<open>#prcIsum\<close>, \<^verbatim>\<open>.currency-value\<close>, \<^verbatim>\<open>.product-price\<close>,
  \<^verbatim>\<open>.item-price\<close>, \<^verbatim>\<open>.cost\<close>, \<^verbatim>\<open>.amount\<close>, \<^verbatim>\<open>.value\<close>.
\<close>

definition PRICE_SELECTORS :: "selector list" where
  "PRICE_SELECTORS =
     [[[[AttrSub (js ''class'') (js ''price'')]]],
      [[[AttrSub (js ''class'') (js ''Price'')]]],
      [[[AttrSub (js ''id'') (js ''price'')]]],
      [[[AttrSub (js ''id'') (js ''Price'')]]],
      [[[HasAttr (js ''data-price'')]]],
      [[[AttrSub (js ''data-testid'') (js ''price'')]]],
      [[[Cl (js ''a-price-whole'')]]],
      [[[Cl (js ''a-price'')], [Cl (js ''a-offscreen'')]]],
      [[[AttrEq (js ''data-a-color'') (js ''price'')]]],
      [[[Cl (js ''a-price-symbol'')]]],
      [[[Cl (js ''a-price'')], [Cl (js ''a-price-whole'')]]],
      [[[Cl (js ''a-price-range'')], [Cl (js ''a-price-whole'')]]],
      [[[AttrSub (js ''class'') (js ''deal''), Not (AttrSub (js ''class'') (js ''time'')),
         Not (AttrSub (js ''class'') (js ''timer'')),
         Not (AttrSub (js ''class'') (js ''countdown''))]]],
      [[[Cl (js ''notranslate'')]]],
      [[[Ident (js ''prcIsum'')]]],
      [[[Cl (js ''currency-value'')]]],
      [[[Cl (js ''product-price'')]]],
      [[[Cl (js ''item-price'')]]],
      [[[Cl (js ''cost'')]]],
      [[[Cl (js ''amount'')]]],
      [[[Cl (js ''value'')]]]]"

definition BADGE_SELECTOR :: selector where
  "BADGE_SELECTOR = [[[Cl (js ''price-hours-badge'')]]]"

text \<open>
  \<^verbatim>\<open>nav, aside, [role='navigation'], [class*='sidebar'], [class*='nav'], [id*='sidebar'],
  [id*='nav']\<close>
\<close>

definition SIDEBAR_SELECTOR :: selector where
  "SIDEBAR_SELECTOR =
     [[[Tag (js ''nav'')]], [[Tag (js ''aside'')]],
      [[AttrEq (js ''role'') (js ''navigation'')]],
      [[AttrSub (js ''class'') (js ''sidebar'')]], [[AttrSub (js ''class'') (js ''nav'')]],
      [[AttrSub (js ''id'') (js ''sidebar'')]], [[AttrSub (js ''id'') (js ''nav'')]]]"

definition excludePatterns :: "jsstring list" where
  "excludePatterns = map js [''time'', ''timer'', ''countdown'', ''duration'', ''deal'',
     ''remaining'', ''expires'', ''ends'']"

text \<open>
  The tests on the class name that \<^verbatim>\<open>isPriceElement\<close>, \<^verbatim>\<open>detectPrices\<close> and the badge
  injection repeat: off-screen or hidden, and \<^verbatim>\<open>priceToPay\<close>.
\<close>

definition is_hidden :: "einfo \<Rightarrow> bool" where
  "is_hidden e =
     (js_includes (toLowerCase (className e)) (js ''offscreen'')
      \<or> js_includes (toLowerCase (className e)) (js ''sr-only'')
      \<or> js_includes (toLowerCase (className e)) (js ''visually-hidden'')
      \<or> getAttribute e (js ''aria-hidden'') = Some (js ''true''))"

definition is_priceToPay :: "einfo \<Rightarrow> bool" where
  "is_priceToPay e = js_includes (toLowerCase (className e)) (js ''pricetopay'')"

definition is_own_badge :: "located \<Rightarrow> bool" where
  "is_own_badge l =
     (classList_contains (info (fst l)) (js ''price-hours-badge'')
      \<or> closest l BADGE_SELECTOR \<noteq> None)"

text \<open>\<^verbatim>\<open>isPriceElement(element)\<close> for an element of the document.\<close>

definition isPriceElement :: "located \<Rightarrow> bool" where
  "isPriceElement l =
     (let e = info (fst l) in
      if is_own_badge l then False
      else if is_hidden e then False
      else if is_priceToPay e then False
      else
        (let cls = toLowerCase (className e);
             isInSidebar = (closest l SIDEBAR_SELECTOR \<noteq> None);
             ident = toLowerCase (elem_id e);
             text = toLowerCase (textContent (fst l))
         in if list_ex (\<lambda>pattern.
                  (js_includes cls pattern \<or> js_includes ident pattern
                   \<or> js_includes text pattern)
                  \<and> \<not> js_includes cls (js ''price'') \<and> \<not> js_includes ident (js ''price'')
                  \<and> \<not> hasAttribute e (js ''data-price'')) excludePatterns
            then False
            else if isInSidebar then
              (if isTimeValue text then False
               else
                 (let hasPriceIndicator =
                        (js_includes cls (js ''price'') \<or> js_includes ident (js ''price'')
                         \<or> hasAttribute e (js ''data-price'')
                         \<or> closest l [[[AttrSub (js ''class'') (js ''price'')]]] \<noteq> None
                         \<or> rx_test rx_currency text)
                  in if \<not> hasPriceIndicator \<and> isTimeValue text then False else True))
            else True))"

subsection \<open>parseFloat\<close>

fun nat_of_digits :: "nat \<Rightarrow> jsstring \<Rightarrow> nat" where
  "nat_of_digits acc [] = acc"
| "nat_of_digits acc (d # ds) = nat_of_digits (10 * acc + (d - 48)) ds"

text \<open>
  The exponent part \<^verbatim>\<open>e\<close>, optional sign, digits; without digits there is no exponent
  part and the factor is one.
\<close>

definition exponent_factor :: "jsstring \<Rightarrow> real" where
  "exponent_factor s =
     (case s of
        [] \<Rightarrow> 1
      | c # t \<Rightarrow>
          if c = 101 \<or> c = 69 then
            (let neg = (t \<noteq> [] \<and> hd t = 45);
                 u = (if t \<noteq> [] \<and> (hd t = 43 \<or> hd t = 45) then tl t else t);
                 ds = takeWhile is_digit u
             in if ds = [] then 1
                else if neg then 1 / 10 ^ nat_of_digits 0 ds
                else 10 ^ nat_of_digits 0 ds)
          else 1)"

text \<open>The unsigned part of a decimal literal: \<^verbatim>\<open>Infinity\<close>, or digits with an optional
  fraction and exponent.  \<open>None\<close> when no prefix of the string is a literal.\<close>

definition unsigned_literal :: "jsstring \<Rightarrow> jsnum option" where
  "unsigned_literal s =
     (if starts_with s (js ''Infinity'') then Some PosInf
      else
        (let ip = takeWhile is_digit s;
             r1 = dropWhile is_digit s;
             fp = (if r1 \<noteq> [] \<and> hd r1 = 46 then takeWhile is_digit (tl r1) else []);
             r2 = (if r1 \<noteq> [] \<and> hd r1 = 46 then dropWhile is_digit (tl r1) else r1)
         in if ip = [] \<and> fp = [] then None
            else Some (Fin (real (nat_of_digits 0 (ip @ fp)) / 10 ^ length fp
                            * exponent_factor r2))))"

fun js_neg :: "jsnum \<Rightarrow> jsnum" where
  "js_neg NaN = NaN"
| "js_neg PosInf = NegInf"
| "js_neg NegInf = PosInf"
| "js_neg (Fin a) = Fin (- a)"

text \<open>\<^verbatim>\<open>parseFloat(s)\<close>: the longest decimal literal at the start of the string, after
  leading white space; NaN when there is none.\<close>

definition parseFloat :: "jsstring \<Rightarrow> jsnum" where
  "parseFloat s =
     (let t = dropWhile is_space s;
          neg = (t \<noteq> [] \<and> hd t = 45);
          u = (if t \<noteq> [] \<and> (hd t = 43 \<or> hd t = 45) then tl t else t)
      in case unsigned_literal u of
           None \<Rightarrow> NaN
         | Some v \<Rightarrow> if neg then js_neg v else v)"

subsection \<open>parsePrice\<close>

text \<open>\<^verbatim>\<open>/price|Price|cost|amount|value/i\<close> and \<^verbatim>\<open>/price|Price/i\<close>.\<close>

definition price_word_rx :: rx where
  "price_word_rx = rx_words_i [''price'', ''Price'', ''cost'', ''amount'', ''value'']"

definition price_only_rx :: rx where
  "price_only_rx = rx_words_i [''price'', ''Price'']"

text \<open>\<^verbatim>\<open>/[$\<euro>\<pounds>\<yen>,\s]/g\<close> and \<^verbatim>\<open>/\.(?=\d{3})/g\<close>.\<close>

definition strip_rx :: rx where
  "strip_rx = Cls (currency_ranges @ [(44, 44)] @ ws_ranges)"

definition thousands_rx :: rx where
  "thousands_rx = Seq (rx_unit 46) (Look (rx_seqs [rx_digit, rx_digit, rx_digit]))"

text \<open>
  \<^verbatim>\<open>parsePrice(priceText, element)\<close>; \<open>None\<close> as the second argument is the default
  \<^verbatim>\<open>null\<close>, \<open>None\<close> as the result the \<^verbatim>\<open>null\<close> it returns.
\<close>

definition parsePrice :: "jsstring \<Rightarrow> located option \<Rightarrow> jsnum option" where
  "parsePrice priceText el =
     (if priceText = [] then None
      else if isTimeValue priceText then None
      else if (case el of None \<Rightarrow> False | Some l \<Rightarrow> \<not> isPriceElement l) then None
      else
        (let hasCurrency = rx_test rx_currency priceText
         in if \<not> hasCurrency
               \<and> (case el of
                     None \<Rightarrow> False
                   | Some l \<Rightarrow>
                       \<not> rx_test price_word_rx (className (info (fst l)))
                       \<and> \<not> rx_test price_word_rx (elem_id (info (fst l)))
                       \<and> \<not> hasAttribute (info (fst l)) (js ''data-price''))
            then None
            else
              (let cleaned = rx_replace_all strip_rx [] (trim priceText);
                   normalized = replace_first (js '','') (js ''.'')
                                  (rx_replace_all thousands_rx [] cleaned);
                   p = parseFloat normalized
               in if isNaN p \<or> js_lt p (Fin 0) \<or> js_gt p (Fin 10000000) then None
                  else if (js_lt p (Fin (1 / 100)) \<or> js_gt p (Fin 100000))
                          \<and> \<not> hasCurrency
                          \<and> (case el of
                                None \<Rightarrow> True
                              | Some l \<Rightarrow>
                                  \<not> rx_test price_only_rx (className (info (fst l)))
                                  \<and> \<not> rx_test price_only_rx (elem_id (info (fst l))))
                       then None
                  else Some p)))"

text \<open>
  The two cleaning steps of \<^verbatim>\<open>parsePrice\<close> in the words of the specification, to be
  compared with the regular-expression replacements above: drop every currency symbol,
  comma and white-space unit; then drop every full stop that has three digits directly
  after it.
\<close>

definition strip_ranges :: "(nat \<times> nat) list" where
  "strip_ranges = currency_ranges @ [(44, 44)] @ ws_ranges"

definition spec_strip :: "jsstring \<Rightarrow> jsstring" where
  "spec_strip s = filter (\<lambda>c. \<not> in_ranges c strip_ranges) s"

fun three_digits :: "jsstring \<Rightarrow> bool" where
  "three_digits (a # b # c # _) = (is_digit a \<and> is_digit b \<and> is_digit c)"
| "three_digits _ = False"

fun spec_drop_thousands_dots :: "jsstring \<Rightarrow> jsstring" where
  "spec_drop_thousands_dots [] = []"
| "spec_drop_thousands_dots (c # s) =
     (if c = 46 \<and> three_digits s then spec_drop_thousands_dots s
      else c # spec_drop_thousands_dots s)"

text \<open>
  The second step as the specification words it: a full stop is dropped when it has
  exactly three digits after it, three digits and no fourth.
\<close>

fun exactly_three_digits :: "jsstring \<Rightarrow> bool" where
  "exactly_three_digits (a # b # c # d # _) =
     (is_digit a \<and> is_digit b \<and> is_digit c \<and> \<not> is_digit d)"
| "exactly_three_digits [a, b, c] = (is_digit a \<and> is_digit b \<and> is_digit c)"
| "exactly_three_digits _ = False"

fun spec_drop_dots_before_exactly_three :: "jsstring \<Rightarrow> jsstring" where
  "spec_drop_dots_before_exactly_three [] = []"
| "spec_drop_dots_before_exactly_three (c # s) =
     (if c = 46 \<and> exactly_three_digits s then spec_drop_dots_before_exactly_three s
      else c # spec_drop_dots_before_exactly_three s)"

subsection \<open>detectPrices\<close>

text \<open>A candidate \<^verbatim>\<open>{element, price, originalText}\<close>; the element is held by its handle.\<close>

record candidate =
  element :: nat
  price :: jsnum
  originalText :: jsstring

text \<open>
  The two accumulators of \<^verbatim>\<open>detectPrices\<close>: the array \<^verbatim>\<open>prices\<close> and the set
  \<^verbatim>\<open>foundElements\<close>.
\<close>

type_synonym found = "candidate list \<times> nat list"

text \<open>The callback of the selector scan, for one matched element.\<close>

definition scan_element :: "found \<Rightarrow> located \<Rightarrow> found" where
  "scan_element acc l =
     (if node_id (fst l) \<in> set (snd acc) then acc
      else if is_own_badge l then acc
      else if is_hidden (info (fst l)) then acc
      else if is_priceToPay (info (fst l)) then acc
      else if \<not> isPriceElement l then acc
      else
        (let text = textContent (fst l)
         in if isTimeValue text then acc
            else
              (case parsePrice text (Some l) of
                 None \<Rightarrow> acc
               | Some p \<Rightarrow>
                   if js_gt p (Fin 0)
                   then (fst acc @ [\<lparr>element = node_id (fst l), price = p,
                                     originalText = trim text\<rparr>],
                         snd acc @ [node_id (fst l)])
                   else acc)))"

definition scan_selectors :: "document \<Rightarrow> found" where
  "scan_selectors doc =
     foldl (\<lambda>acc selector. foldl scan_element acc (querySelectorAll doc selector))
       ([], []) PRICE_SELECTORS"

text \<open>
  The walk up from a text node for one match of the price pattern: \<open>anc\<close> is the chain
  of ancestors still to visit, the walk ends at the body or above the root.
\<close>

fun climb :: "nat \<Rightarrow> jsstring \<Rightarrow> node list \<Rightarrow> found \<Rightarrow> found" where
  "climb b m [] acc = acc"
| "climb b m (parent # anc) acc =
     (if node_id parent = b then acc
      else if node_id parent \<in> set (snd acc) \<or> \<not> isPriceElement (parent, anc)
      then climb b m anc acc
      else
        (case parsePrice m (Some (parent, anc)) of
           None \<Rightarrow> climb b m anc acc
         | Some p \<Rightarrow>
             if js_gt p (Fin 0)
             then (fst acc @ [\<lparr>element = node_id parent, price = p, originalText = trim m\<rparr>],
                   snd acc @ [node_id parent])
             else climb b m anc acc))"

text \<open>The text nodes below the body, in document order: what the tree walker yields.\<close>

definition walker_nodes :: "document \<Rightarrow> located list" where
  "walker_nodes doc =
     filter (\<lambda>l. \<not> is_element (fst l) \<and> body doc \<in> set (map node_id (snd l)))
       (locs [] (root doc))"

definition scan_text_node :: "nat \<Rightarrow> found \<Rightarrow> located \<Rightarrow> found" where
  "scan_text_node b acc l =
     (let text = textContent (fst l)
      in if isTimeValue text then acc
         else foldl (\<lambda>a m. climb b m (snd l) a) acc (rx_match_all PRICE_PATTERN text))"

definition scan_text :: "document \<Rightarrow> found \<Rightarrow> found" where
  "scan_text doc acc = foldl (scan_text_node (body doc)) acc (walker_nodes doc)"

text \<open>\<^verbatim>\<open>Map.prototype.set\<close> on a map held as its entries in insertion order.\<close>

fun map_set :: "('k \<times> 'v) list \<Rightarrow> 'k \<Rightarrow> 'v \<Rightarrow> ('k \<times> 'v) list" where
  "map_set [] k v = [(k, v)]"
| "map_set (e # es) k v = (if fst e = k then (k, v) # es else e # map_set es k v)"


text \<open>\<^verbatim>\<open>Array.from(new Map(prices.map((p) => [p.element, p])).values())\<close>\<close>

definition unique_by_element :: "candidate list \<Rightarrow> candidate list" where
  "unique_by_element prices =
     map snd (foldl (\<lambda>m p. map_set m (element p) p) [] prices)"

definition detectPrices :: "document \<Rightarrow> candidate list" where
  "detectPrices doc = unique_by_element (fst (scan_text doc (scan_selectors doc)))"

text \<open>A candidate whose price is a finite number above zero and at most ten million.\<close>

definition positive_price :: "candidate \<Rightarrow> bool" where
  "positive_price c = (\<exists>r. price c = Fin r \<and> 0 < r \<and> r \<le> 10000000)"

section \<open>Presentation controller (content script)\<close>

subsection \<open>Changing the tree\<close>

text \<open>Apply \<open>f\<close> to the node with handle \<open>i\<close>.\<close>

fun update_node :: "nat \<Rightarrow> (node \<Rightarrow> node) \<Rightarrow> node \<Rightarrow> node" where
  "update_node i f (TextNode j d) = (if j = i then f (TextNode j d) else TextNode j d)"
| "update_node i f (Element j e ks) =
     (if j = i then f (Element j e ks) else Element j e (map (update_node i f) ks))"



















subsection \<open>State\<close>



text \<open>
  What the storage collaborator holds: the hourly wage, the display mode (empty when
  unset) and the show-hours flag.
\<close>

record storage =
  hourlyWage :: jsnum
  stored_displayMode :: jsstring
  stored_showHours :: bool




subsection \<open>Badges\<close>










subsection \<open>Replace mode\<close>








subsection \<open>Reset and pass\<close>






section \<open>Site classifier (utils/shopping-sites.js)\<close>

definition SHOPPING_SITES :: "jsstring list" where
  "SHOPPING_SITES = map js [''amazon.com'', ''amazon.co.uk'', ''amazon.ca'', ''amazon.de'',
     ''ebay.com'', ''etsy.com'', ''walmart.com'', ''target.com'', ''bestbuy.com'',
     ''newegg.com'', ''shopify.com'', ''shop.com'', ''zappos.com'', ''overstock.com'',
     ''wayfair.com'', ''homedepot.com'', ''lowes.com'', ''macys.com'', ''nordstrom.com'',
     ''sephora.com'', ''ulta.com'', ''asos.com'', ''zara.com'', ''h&m.com'', ''gap.com'',
     ''oldnavy.com'', ''bananarepublic.com'', ''athleta.com'', ''adidas.com'', ''nike.com'',
     ''puma.com'', ''underarmour.com'']"

definition SHOPPING_KEYWORDS :: "jsstring list" where
  "SHOPPING_KEYWORDS = map js [''shop'', ''store'', ''buy'', ''cart'', ''checkout'',
     ''product'', ''purchase'', ''merchandise'']"

text \<open>
  The platform's \<^verbatim>\<open>URL\<close> constructor is a parameter: it gives the parsed address, of
  which the program reads the host name and the path, or throws a \<^verbatim>\<open>TypeError\<close>.
\<close>

datatype js_error = TypeError

record url =
  hostname :: jsstring
  pathname :: jsstring

text \<open>The body of the \<^verbatim>\<open>try\<close> block of \<^verbatim>\<open>isShoppingSite\<close>.\<close>

definition isShoppingSite_try :: "(jsstring \<Rightarrow> js_error + url) \<Rightarrow> jsstring \<Rightarrow> js_error + bool" where
  "isShoppingSite_try new_URL address =
     (case new_URL address of
        Inl err \<Rightarrow> Inl err
      | Inr urlObj \<Rightarrow>
          (let host = toLowerCase (hostname urlObj);
               path = toLowerCase (pathname urlObj)
           in if list_ex (\<lambda>site. js_includes host site) SHOPPING_SITES then Inr True
              else if list_ex (\<lambda>keyword. js_includes host keyword \<or> js_includes path keyword)
                        SHOPPING_KEYWORDS
              then Inr True
              else Inr False))"

text \<open>\<^verbatim>\<open>isShoppingSite(url)\<close>: the \<^verbatim>\<open>catch\<close> clause turns every exception into
  \<^verbatim>\<open>false\<close>.  \<open>Inl\<close> would be an exception that leaves the function.\<close>

definition isShoppingSite :: "(jsstring \<Rightarrow> js_error + url) \<Rightarrow> jsstring \<Rightarrow> js_error + bool" where
  "isShoppingSite new_URL address =
     (case isShoppingSite_try new_URL address of
        Inl err \<Rightarrow> Inr False
      | Inr b \<Rightarrow> Inr b)"

section \<open>Sample pages\<close>

definition span_el :: "nat \<Rightarrow> string \<Rightarrow> node list \<Rightarrow> node" where
  "span_el i cls ks =
     Element i \<lparr>tagName = js ''span'',
                attrs = (if cls = [] then [] else [(js ''class'', js cls)]),
                style = [], computed = [(js ''display'', js ''inline'')]\<rparr> ks"

definition html_page :: "node list \<Rightarrow> document" where
  "html_page ks =
     \<lparr>root = Element 0 \<lparr>tagName = js ''html'', attrs = [], style = [], computed = []\<rparr>
               [Element 1 \<lparr>tagName = js ''body'', attrs = [], style = [], computed = []\<rparr> ks],
      body = 1\<rparr>"

text \<open>\<^verbatim>\<open><span class="cost">$5</span><span class="price">$10</span>\<close>\<close>

definition two_prices_page :: document where
  "two_prices_page =
     html_page [span_el 2 ''cost'' [TextNode 3 (js ''$5'')],
                span_el 4 ''price'' [TextNode 5 (js ''$10'')]]"


text \<open>\<^verbatim>\<open><span class="price">99</span>\<close> and \<^verbatim>\<open><span>99</span>\<close>, each in a body.\<close>

definition priced_span :: located where
  "priced_span =
     (span_el 2 ''price'' [TextNode 3 (js ''99'')],
      [Element 1 \<lparr>tagName = js ''body'', attrs = [], style = [], computed = []\<rparr>
         [span_el 2 ''price'' [TextNode 3 (js ''99'')]]])"

definition plain_span :: located where
  "plain_span =
     (span_el 2 [] [TextNode 3 (js ''99'')],
      [Element 1 \<lparr>tagName = js ''body'', attrs = [], style = [], computed = []\<rparr>
         [span_el 2 [] [TextNode 3 (js ''99'')]]])"








text \<open>A \<^verbatim>\<open>URL\<close> constructor known at three addresses.\<close>

definition sample_URL :: "jsstring \<Rightarrow> js_error + url" where
  "sample_URL address =
     (if address = js ''https://www.amazon.com/dp/X''
      then Inr \<lparr>hostname = js ''www.amazon.com'', pathname = js ''/dp/X''\<rparr>
      else if address = js ''https://news.example.com/article''
      then Inr \<lparr>hostname = js ''news.example.com'', pathname = js ''/article''\<rparr>
      else Inl TypeError)"

section \<open>Properties of the converter\<close>

lemma round_half_eq:
  fixes h :: real
  assumes "(of_int k - 1 / 2) / 2 \<le> h" and "h < (of_int k + 1 / 2) / 2"
  shows "\<lfloor>h * 2 + 1 / 2\<rfloor> = k"
  using assms by (intro floor_unique) (simp_all add: field_simps)

lemma formatHours_zero_bucket:
  assumes "0 \<le> h" and "h < 1 / 4"
  shows "formatHours (Some (Fin h)) = js ''< 0.5h''"
proof -
  have "\<lfloor>h * 2 + 1 / 2\<rfloor> = 0"
    using assms by (intro floor_unique) simp_all
  then show ?thesis
    using assms by (simp add: formatHours_def Let_def)
qed

lemma formatHours_positive_bucket:
  assumes "0 < k" and "(of_int k - 1 / 2) / 2 \<le> h" and "h < (of_int k + 1 / 2) / 2"
  shows "formatHours (Some (Fin h)) = string_of_halves (nat k) @ js ''h''"
proof -
  have r: "\<lfloor>h * 2 + 1 / 2\<rfloor> = k"
    using assms(2,3) by (rule round_half_eq)
  have h0: "0 \<le> h"
    using assms by (simp add: field_simps)
  from assms(1) have "1 \<le> k" by simp
  then have q: "\<not> real_of_int k / 2 < 1 / 4" and q2: "\<not> real_of_int k < 0"
    by (simp_all add: field_simps)
  have "\<lfloor>\<bar>real_of_int k\<bar>\<rfloor> = k"
    using assms(1) by simp
  then show ?thesis
    using h0 q q2 by (simp add: formatHours_def Let_def r)
qed

text \<open>
  Claim C1, as amended.  \<^verbatim>\<open>calculateHours\<close> returns \<open>price / wage\<close> when both arguments
  are numbers other than NaN with \<open>price \<ge> 0\<close> and \<open>wage > 0\<close>, and \<^verbatim>\<open>null\<close> in every other
  case: for every wage \<open>\<le> 0\<close> whatever the price, for a negative price, for NaN and for an
  argument that is not a number.  The code tests \<^verbatim>\<open>isNaN\<close>, not finiteness, so positive
  infinity is accepted: an infinite price gives infinitely many hours and an infinite
  wage gives zero hours.
\<close>

theorem calculateHours_spec:
  "(0 \<le> p \<and> 0 < w \<longrightarrow> calculateHours (Num (Fin p)) (Num (Fin w)) = Some (Fin (p / w)))
   \<and> (js_le wn (Fin 0) \<longrightarrow> calculateHours v (Num wn) = None)
   \<and> (js_lt pn (Fin 0) \<longrightarrow> calculateHours (Num pn) u = None)
   \<and> calculateHours (Num NaN) u = None
   \<and> calculateHours v (Num NaN) = None
   \<and> (\<not> is_number x \<or> \<not> is_number y \<longrightarrow> calculateHours x y = None)
   \<and> (0 < w \<longrightarrow> calculateHours (Num PosInf) (Num (Fin w)) = Some PosInf)
   \<and> (0 \<le> p \<longrightarrow> calculateHours (Num (Fin p)) (Num PosInf) = Some (Fin 0))
   \<and> (js_le (Fin 0) a \<and> js_lt (Fin 0) b \<longrightarrow>
        calculateHours (Num a) (Num b) = Some (js_div a b))
   \<and> (calculateHours x y \<noteq> None \<longleftrightarrow>
        (\<exists>a b. x = Num a \<and> y = Num b \<and> js_le (Fin 0) a \<and> js_lt (Fin 0) b))"
proof -
  have quotient: "js_le (Fin 0) a \<and> js_lt (Fin 0) b \<longrightarrow>
      calculateHours (Num a) (Num b) = Some (js_div a b)"
    by (cases a; cases b) (auto simp: js_le_def js_eq_def)
  have last: "calculateHours x y \<noteq> None \<longleftrightarrow>
      (\<exists>a b. x = Num a \<and> y = Num b \<and> js_le (Fin 0) a \<and> js_lt (Fin 0) b)"
  proof (cases x)
    case (Num a)
    show ?thesis
    proof (cases y)
      case (Num b)
      show ?thesis
        unfolding \<open>x = Num a\<close> \<open>y = Num b\<close>
        by (cases a; cases b) (auto simp: js_le_def js_eq_def)
    qed (simp_all add: Num)
  qed simp_all
  have rest: "(js_le wn (Fin 0) \<longrightarrow> calculateHours v (Num wn) = None)
      \<and> (js_lt pn (Fin 0) \<longrightarrow> calculateHours (Num pn) u = None)
      \<and> calculateHours (Num NaN) u = None \<and> calculateHours v (Num NaN) = None
      \<and> (\<not> is_number x \<or> \<not> is_number y \<longrightarrow> calculateHours x y = None)"
    by (cases v; cases u; cases x; cases y) (auto simp: js_le_def js_eq_def)
  have finite: "(0 \<le> p \<and> 0 < w \<longrightarrow>
        calculateHours (Num (Fin p)) (Num (Fin w)) = Some (Fin (p / w)))
      \<and> (0 < w \<longrightarrow> calculateHours (Num PosInf) (Num (Fin w)) = Some PosInf)
      \<and> (0 \<le> p \<longrightarrow> calculateHours (Num (Fin p)) (Num PosInf) = Some (Fin 0))"
    by (simp add: js_le_def js_eq_def)
  show ?thesis
    using last rest quotient finite by simp
qed

text \<open>
  Ten at a wage of twenty is half an hour; a wage of zero, a negative price and a string
  give \<^verbatim>\<open>null\<close>; an infinite price and an infinite wage do not.
\<close>

theorem calculateHours_spec_witness:
  "calculateHours (Num (Fin 10)) (Num (Fin 20)) = Some (Fin (1 / 2))
   \<and> calculateHours (Num (Fin 5)) (Num (Fin 0)) = None
   \<and> calculateHours (Num (Fin (- 1))) (Num (Fin 20)) = None
   \<and> calculateHours (Str (js ''10'')) (Num (Fin 20)) = None
   \<and> calculateHours (Num PosInf) (Num (Fin 20)) = Some PosInf
   \<and> calculateHours (Num (Fin 10)) (Num PosInf) = Some (Fin 0)"
  using calculateHours_spec [of 10 20 "Fin 0" "Num (Fin 5)" "Fin (- 1)" "Num (Fin 20)"
      "Str (js ''10'')" "Num (Fin 20)" "Fin 10" "Fin 20"]
  by (simp add: js_le_def js_eq_def)

text \<open>
  An infinite price at a wage of one is not rejected.
\<close>

theorem calculateHours_infinite_counterexample:
  "calculateHours (Num PosInf) (Num (Fin 1)) = Some PosInf
   \<and> calculateHours (Num PosInf) (Num (Fin 1)) \<noteq> None"
  by (simp add: js_le_def js_eq_def)

text \<open>
  Claim C2, as amended.  \<^verbatim>\<open>getTierColor\<close> gives green for a value below the green
  threshold, yellow for a value from the green threshold up to the yellow one, and green
  for a value of zero when the green threshold is zero; it gives red for a value above
  the yellow threshold when the green threshold does not exceed the yellow one, as the
  data model requires and the settings form enforces.  At the three sample inputs: 0 with
  thresholds 0/50/100 is green, 0 with thresholds 10/50/100 is green as well, being below
  the green threshold, and 150 with thresholds 0/50/100 is red.
\<close>

theorem getTierColor_spec:
  "(js_lt v (green ts) \<longrightarrow> getTierColor (Num v) (Some ts) = js ''green'')
   \<and> (js_le (green ts) v \<and> js_le v (yellow ts)
        \<and> \<not> (js_eq (green ts) (Fin 0) \<and> js_eq v (Fin 0))
      \<longrightarrow> getTierColor (Num v) (Some ts) = js ''yellow'')
   \<and> (js_le (green ts) (yellow ts) \<and> js_gt v (yellow ts)
      \<longrightarrow> getTierColor (Num v) (Some ts) = js ''red'')
   \<and> (js_eq (green ts) (Fin 0) \<and> js_eq v (Fin 0)
      \<longrightarrow> getTierColor (Num v) (Some ts) = js ''green'')
   \<and> getTierColor (Num (Fin 0))
        (Some \<lparr>ttype = Money, green = Fin 0, yellow = Fin 50, red = Fin 100\<rparr>) = js ''green''
   \<and> getTierColor (Num (Fin 0))
        (Some \<lparr>ttype = Money, green = Fin 10, yellow = Fin 50, red = Fin 100\<rparr>) = js ''green''
   \<and> getTierColor (Num (Fin 150))
        (Some \<lparr>ttype = Money, green = Fin 0, yellow = Fin 50, red = Fin 100\<rparr>) = js ''red''"
proof -
  have general: "(js_lt v (green ts) \<longrightarrow> getTierColor (Num v) (Some ts) = js ''green'')
     \<and> (js_le (green ts) v \<and> js_le v (yellow ts)
          \<and> \<not> (js_eq (green ts) (Fin 0) \<and> js_eq v (Fin 0))
        \<longrightarrow> getTierColor (Num v) (Some ts) = js ''yellow'')
     \<and> (js_le (green ts) (yellow ts) \<and> js_gt v (yellow ts)
        \<longrightarrow> getTierColor (Num v) (Some ts) = js ''red'')
     \<and> (js_eq (green ts) (Fin 0) \<and> js_eq v (Fin 0)
        \<longrightarrow> getTierColor (Num v) (Some ts) = js ''green'')"
    by (cases v; cases "green ts"; cases "yellow ts")
       (auto simp: getTierColor_def js_le_def js_eq_def js_gt_def js_ge_def)
  have samples: "getTierColor (Num (Fin 0))
        (Some \<lparr>ttype = Money, green = Fin 0, yellow = Fin 50, red = Fin 100\<rparr>) = js ''green''"
    "getTierColor (Num (Fin 0))
        (Some \<lparr>ttype = Money, green = Fin 10, yellow = Fin 50, red = Fin 100\<rparr>) = js ''green''"
    "getTierColor (Num (Fin 150))
        (Some \<lparr>ttype = Money, green = Fin 0, yellow = Fin 50, red = Fin 100\<rparr>) = js ''red''"
    by (simp_all add: getTierColor_def js_le_def js_eq_def js_gt_def js_ge_def)
  show ?thesis
    using general samples by simp
qed

text \<open>
  The rules at thresholds 10/50/100: 5 is green, 30 is yellow and 75 is red; and zero is
  green at thresholds 0/50/100.
\<close>

theorem getTierColor_spec_witness:
  "getTierColor (Num (Fin 5))
        (Some \<lparr>ttype = Hours, green = Fin 10, yellow = Fin 50, red = Fin 100\<rparr>) = js ''green''
   \<and> getTierColor (Num (Fin 30))
        (Some \<lparr>ttype = Hours, green = Fin 10, yellow = Fin 50, red = Fin 100\<rparr>) = js ''yellow''
   \<and> getTierColor (Num (Fin 75))
        (Some \<lparr>ttype = Hours, green = Fin 10, yellow = Fin 50, red = Fin 100\<rparr>) = js ''red''
   \<and> getTierColor (Num (Fin 0))
        (Some \<lparr>ttype = Hours, green = Fin 0, yellow = Fin 50, red = Fin 100\<rparr>) = js ''green''"
  using getTierColor_spec
      [of "Fin 5" "\<lparr>ttype = Hours, green = Fin 10, yellow = Fin 50, red = Fin 100\<rparr>"]
    getTierColor_spec
      [of "Fin 30" "\<lparr>ttype = Hours, green = Fin 10, yellow = Fin 50, red = Fin 100\<rparr>"]
    getTierColor_spec
      [of "Fin 75" "\<lparr>ttype = Hours, green = Fin 10, yellow = Fin 50, red = Fin 100\<rparr>"]
    getTierColor_spec
      [of "Fin 0" "\<lparr>ttype = Hours, green = Fin 0, yellow = Fin 50, red = Fin 100\<rparr>"]
  by (simp add: js_le_def js_eq_def js_gt_def)

text \<open>
  The second sample as the specification has it fails: 0 with thresholds 10/50/100 is
  not yellow.
\<close>

theorem getTierColor_zero_below_green_counterexample:
  "getTierColor (Num (Fin 0))
     (Some \<lparr>ttype = Money, green = Fin 10, yellow = Fin 50, red = Fin 100\<rparr>) \<noteq> js ''yellow''"
  by (simp add: getTierColor_def js_le_def js_eq_def js_def)

text \<open>
  Claim C3.  \<^verbatim>\<open>formatHours\<close> returns \<^verbatim>\<open>N/A\<close> for \<^verbatim>\<open>null\<close>, NaN and a negative number.
  Any other finite input is bucketed by \<open>round(hours * 2) / 2\<close>: the hours whose doubling
  rounds to \<open>k > 0\<close> are printed as \<open>k / 2\<close> followed by \<^verbatim>\<open>h\<close>; every value of \<open>[0, 0.25)\<close>
  gives \<^verbatim>\<open>< 0.5h\<close>, every value of \<open>[0.25, 0.75)\<close> gives \<^verbatim>\<open>0.5h\<close> and every value of
  \<open>[0.75, 1.25)\<close> gives \<^verbatim>\<open>1h\<close>, the boundaries 0.25 and 0.75 belonging to the upper bucket.
\<close>

theorem formatHours_buckets:
  "formatHours None = js ''N/A''
   \<and> formatHours (Some NaN) = js ''N/A''
   \<and> (js_lt x (Fin 0) \<longrightarrow> formatHours (Some x) = js ''N/A'')
   \<and> (0 < k \<and> (of_int k - 1 / 2) / 2 \<le> h \<and> h < (of_int k + 1 / 2) / 2
      \<longrightarrow> formatHours (Some (Fin h)) = string_of_halves (nat k) @ js ''h'')
   \<and> (0 \<le> h0 \<and> h0 < 1 / 4 \<longrightarrow> formatHours (Some (Fin h0)) = js ''< 0.5h'')
   \<and> (1 / 4 \<le> h1 \<and> h1 < 3 / 4 \<longrightarrow> formatHours (Some (Fin h1)) = js ''0.5h'')
   \<and> (3 / 4 \<le> h2 \<and> h2 < 5 / 4 \<longrightarrow> formatHours (Some (Fin h2)) = js ''1h'')"
proof -
  have na: "formatHours None = js ''N/A''" "formatHours (Some NaN) = js ''N/A''"
    "js_lt x (Fin 0) \<longrightarrow> formatHours (Some x) = js ''N/A''"
    by (simp_all add: formatHours_def)
  have b1: "1 / 4 \<le> h1 \<and> h1 < 3 / 4 \<longrightarrow> formatHours (Some (Fin h1)) = js ''0.5h''"
    using formatHours_positive_bucket [of 1 h1]
    by (simp add: string_of_halves_def string_of_nat.simps js_def)
  have b2: "3 / 4 \<le> h2 \<and> h2 < 5 / 4 \<longrightarrow> formatHours (Some (Fin h2)) = js ''1h''"
    using formatHours_positive_bucket [of 2 h2]
    by (simp add: string_of_halves_def string_of_nat.simps js_def)
  show ?thesis
    using na b1 b2 formatHours_positive_bucket [of k h] formatHours_zero_bucket [of h0] by blast
qed

text \<open>
  Negative infinity, two and a half hours, and the lower ends 0, 0.25 and 0.75 of the
  three buckets.
\<close>

theorem formatHours_buckets_witness:
  "formatHours (Some NegInf) = js ''N/A''
   \<and> formatHours (Some (Fin (5 / 2))) = js ''2.5h''
   \<and> formatHours (Some (Fin 0)) = js ''< 0.5h''
   \<and> formatHours (Some (Fin (1 / 4))) = js ''0.5h''
   \<and> formatHours (Some (Fin (3 / 4))) = js ''1h''"
  using formatHours_buckets [of NegInf 5 "5 / 2" 0 "1 / 4" "3 / 4"]
  by (simp add: string_of_halves_def string_of_nat.simps js_def)

text \<open>
  Claim C10.  \<^verbatim>\<open>getTierColor\<close> does not depend on the red threshold: two settings with
  the same green and the same yellow threshold give the same colour for every value,
  whatever their red thresholds are.
\<close>

theorem getTierColor_ignores_red:
  "green a = green b \<Longrightarrow> yellow a = yellow b \<Longrightarrow>
     getTierColor v (Some a) = getTierColor v (Some b)"
  by (cases v) (simp_all add: getTierColor_def)

text \<open>
  The value 75 at thresholds 0/50 with the red threshold at 100 and at 60.
\<close>

theorem getTierColor_ignores_red_witness:
  "getTierColor (Num (Fin 75))
     (Some \<lparr>ttype = Money, green = Fin 0, yellow = Fin 50, red = Fin 100\<rparr>)
   = getTierColor (Num (Fin 75))
     (Some \<lparr>ttype = Money, green = Fin 0, yellow = Fin 50, red = Fin 60\<rparr>)"
  using getTierColor_ignores_red
    [of "\<lparr>ttype = Money, green = Fin 0, yellow = Fin 50, red = Fin 100\<rparr>"
        "\<lparr>ttype = Money, green = Fin 0, yellow = Fin 50, red = Fin 60\<rparr>" "Num (Fin 75)"]
  by simp

section \<open>Properties of price parsing and detection\<close>

lemma replace_all_class:
  "rx_replace_all (Cls rs) [] s = filter (\<lambda>c. \<not> in_ranges c rs) s"
proof (induction s)
  case Nil
  show ?case by (subst rx_replace_all.simps) simp
next
  case (Cons c s)
  show ?case by (subst rx_replace_all.simps) (simp add: Cons)
qed

lemma strip_rx_spec: "rx_replace_all strip_rx [] s = spec_strip s"
  by (simp add: strip_rx_def strip_ranges_def spec_strip_def replace_all_class)

lemma rx_ends_digit:
  "rx_ends rx_digit s = (case s of [] \<Rightarrow> [] | c # t \<Rightarrow> if is_digit c then [t] else [])"
  by (cases s) (auto simp: rx_digit_def in_ranges_def is_digit_def)

lemma rx_ends_three_digits:
  "rx_ends (rx_seqs [rx_digit, rx_digit, rx_digit]) s = [] \<longleftrightarrow> \<not> three_digits s"
proof (cases s)
  case Nil
  then show ?thesis by (simp add: rx_seqs_def rx_ends_digit)
next
  case s: (Cons a s1)
  show ?thesis
  proof (cases s1)
    case Nil
    then show ?thesis using s by (simp add: rx_seqs_def rx_ends_digit)
  next
    case s1: (Cons b s2)
    show ?thesis
    proof (cases s2)
      case Nil
      then show ?thesis using s s1 by (simp add: rx_seqs_def rx_ends_digit)
    next
      case (Cons c s3)
      then show ?thesis using s s1 by (auto simp: rx_seqs_def rx_ends_digit)
    qed
  qed
qed

lemma rx_ends_thousands:
  "rx_ends thousands_rx (c # s) = (if c = 46 \<and> three_digits s then [s] else [])"
  using rx_ends_three_digits [of s]
  by (auto simp: thousands_rx_def rx_unit_def in_ranges_def)

lemma thousands_rx_spec: "rx_replace_all thousands_rx [] s = spec_drop_thousands_dots s"
proof (induction s)
  case Nil
  have "rx_ends thousands_rx [] = []"
    by (simp add: thousands_rx_def rx_unit_def)
  then show ?case by (subst rx_replace_all.simps) simp
next
  case (Cons c s)
  show ?case
    by (subst rx_replace_all.simps) (simp add: rx_ends_thousands Cons)
qed

lemma replace_first_absent: "c \<notin> set s \<Longrightarrow> replace_first [c] rep s = s"
  by (induction s) auto

lemma set_spec_drop_thousands_dots: "set (spec_drop_thousands_dots s) \<subseteq> set s"
  by (induction s) auto

lemma comma_stripped: "44 \<notin> set (spec_strip s)"
  by (auto simp: spec_strip_def strip_ranges_def in_ranges_def)

lemma parsePrice_value:
  assumes "parsePrice t el = Some p"
  shows "p = parseFloat (spec_drop_thousands_dots (spec_strip (trim t)))"
proof -
  let ?cleaned = "spec_strip (trim t)"
  have "44 \<notin> set (spec_drop_thousands_dots ?cleaned)"
    using set_spec_drop_thousands_dots [of ?cleaned] comma_stripped [of "trim t"] by blast
  then have "replace_first (js '','') (js ''.'') (spec_drop_thousands_dots ?cleaned)
      = spec_drop_thousands_dots ?cleaned"
    by (simp add: js_def replace_first_absent)
  then show ?thesis
    using assms
    by (auto simp: parsePrice_def Let_def strip_rx_spec thousands_rx_spec split: if_splits)
qed

lemma parsePrice_samples:
  "parsePrice (js ''$1,234.56'') None = Some (Fin 1234.56)"
  "parsePrice (js ''2h 30m'') None = None"
  "parsePrice (js ''99'') (Some plain_span) = None"
  "parsePrice (js ''99'') (Some priced_span) = Some (Fin 99)"
  by code_simp+

text \<open>
  Claim C4, as amended.  The number \<^verbatim>\<open>parsePrice\<close> returns is \<^verbatim>\<open>parseFloat\<close> of the
  trimmed text from which every currency symbol, comma and white-space unit has been
  dropped and then every full stop that is directly followed by at least three digits
  (three digits and whatever comes after them).  At the sample inputs:
  \<^verbatim>\<open>parsePrice("$1,234.56")\<close> is 1234.56, \<^verbatim>\<open>parsePrice("2h 30m")\<close> is \<^verbatim>\<open>null\<close>,
  \<^verbatim>\<open>parsePrice("99", e)\<close> is \<^verbatim>\<open>null\<close> for a \<^verbatim>\<open>span\<close> without a class and 99 for a
  \<^verbatim>\<open>span\<close> of class \<^verbatim>\<open>price\<close>.
\<close>

theorem parsePrice_spec:
  "(parsePrice t el = Some p \<longrightarrow>
      p = parseFloat (spec_drop_thousands_dots (spec_strip (trim t))))
   \<and> rx_replace_all strip_rx [] s = spec_strip s
   \<and> rx_replace_all thousands_rx [] s = spec_drop_thousands_dots s
   \<and> parsePrice (js ''$1,234.56'') None = Some (Fin 1234.56)
   \<and> parsePrice (js ''2h 30m'') None = None
   \<and> parsePrice (js ''99'') (Some plain_span) = None
   \<and> parsePrice (js ''99'') (Some priced_span) = Some (Fin 99)"
  using parsePrice_value [of t el p] strip_rx_spec [of s] thousands_rx_spec [of s]
    parsePrice_samples by blast

text \<open>
  The first sample, with its cleaned text.
\<close>

theorem parsePrice_spec_witness:
  "parsePrice (js ''$1,234.56'') None = Some (Fin 1234.56)
   \<and> Fin 1234.56 = parseFloat (spec_drop_thousands_dots (spec_strip (trim (js ''$1,234.56''))))"
  using parsePrice_spec [of "js ''$1,234.56''" None "Fin 1234.56" "[]"] by blast

text \<open>
  A full stop with four digits after it is dropped by the code, and would be kept if only
  a full stop with exactly three digits after it were dropped: \<^verbatim>\<open>$1.2345\<close> is parsed as
  12345.
\<close>

theorem parsePrice_four_digits_counterexample:
  "rx_replace_all thousands_rx [] (js ''1.2345'') = js ''12345''
   \<and> spec_drop_dots_before_exactly_three (js ''1.2345'') = js ''1.2345''
   \<and> parsePrice (js ''$1.2345'') None = Some (Fin 12345)
   \<and> parsePrice (js ''$1.2345'') None \<noteq> Some (Fin 1.2345)"
  by code_simp

section \<open>Properties of detection\<close>

lemma map_set_keys:
  "map fst (map_set m k v) = (if k \<in> set (map fst m) then map fst m else map fst m @ [k])"
  by (induction m) auto

lemma map_set_values: "set (map_set m k v) \<subseteq> insert (k, v) (set m)"
  by (induction m) auto

lemma foldl_map_set_inv:
  assumes "distinct (map fst m)"
    and "\<forall>e\<in>set m. element (snd e) = fst e \<and> snd e \<in> A"
    and "set ps \<subseteq> A"
  shows "distinct (map fst (foldl (\<lambda>m p. map_set m (element p) p) m ps))
     \<and> (\<forall>e\<in>set (foldl (\<lambda>m p. map_set m (element p) p) m ps).
           element (snd e) = fst e \<and> snd e \<in> A)"
  using assms
proof (induction ps arbitrary: m)
  case Nil
  then show ?case by simp
next
  case (Cons p ps)
  have d: "distinct (map fst (map_set m (element p) p))"
    using Cons.prems(1) by (simp add: map_set_keys)
  have v: "\<forall>e\<in>set (map_set m (element p) p). element (snd e) = fst e \<and> snd e \<in> A"
    using Cons.prems(2,3) map_set_values [of m "element p" p] by auto
  show ?case
    using Cons.IH [OF d v] Cons.prems(3) by simp
qed

lemma unique_by_element_distinct: "distinct (map element (unique_by_element ps))"
proof -
  let ?m = "foldl (\<lambda>m p. map_set m (element p) p) [] ps"
  have inv: "distinct (map fst ?m) \<and> (\<forall>e\<in>set ?m. element (snd e) = fst e \<and> snd e \<in> set ps)"
    by (rule foldl_map_set_inv) simp_all
  then have "map element (map snd ?m) = map fst ?m"
    by simp
  then show ?thesis
    using inv unfolding unique_by_element_def by metis
qed

lemma unique_by_element_subset: "set (unique_by_element ps) \<subseteq> set ps"
proof -
  let ?m = "foldl (\<lambda>m p. map_set m (element p) p) [] ps"
  have "distinct (map fst ?m) \<and> (\<forall>e\<in>set ?m. element (snd e) = fst e \<and> snd e \<in> set ps)"
    by (rule foldl_map_set_inv) simp_all
  then show ?thesis
    by (auto simp: unique_by_element_def)
qed

lemma foldl_inv:
  assumes "P acc" and "\<And>a x. P a \<Longrightarrow> P (f a x)"
  shows "P (foldl f acc xs)"
  using assms(1) by (induction xs arbitrary: acc) (simp_all add: assms(2))

text \<open>
  Claim C7.  The list \<^verbatim>\<open>detectPrices\<close> returns holds at most one candidate for any
  element of the document, whatever the document is: no element occurs twice.  The
  final map is keyed by element and the last write wins: of two candidates for the same
  element it keeps the second.
\<close>

theorem detectPrices_one_candidate_per_element:
  "distinct (map element (detectPrices doc))
   \<and> (element a = element b \<longrightarrow> unique_by_element [a, b] = [b])"
proof -
  have "element a = element b \<longrightarrow> unique_by_element [a, b] = [b]"
    by (simp add: unique_by_element_def)
  then show ?thesis
    by (simp add: detectPrices_def unique_by_element_distinct)
qed

text \<open>
  The page with two prices has two candidates, the two spans; of two candidates for one
  element the later one stays.
\<close>

theorem detectPrices_one_candidate_per_element_witness:
  "map element (detectPrices two_prices_page) = [4, 2]
   \<and> distinct (map element (detectPrices two_prices_page))
   \<and> unique_by_element
        [\<lparr>element = 7, price = Fin 1, originalText = js ''$1''\<rparr>,
         \<lparr>element = 7, price = Fin 2, originalText = js ''$2''\<rparr>]
       = [\<lparr>element = 7, price = Fin 2, originalText = js ''$2''\<rparr>]"
proof -
  have "map element (detectPrices two_prices_page) = [4, 2]"
    by code_simp
  then show ?thesis
    using detectPrices_one_candidate_per_element [of two_prices_page
        "\<lparr>element = 7, price = Fin 1, originalText = js ''$1''\<rparr>"
        "\<lparr>element = 7, price = Fin 2, originalText = js ''$2''\<rparr>"]
    by simp
qed

lemma parsePrice_range:
  assumes "parsePrice t el = Some p" and "js_gt p (Fin 0)"
  shows "\<exists>r. p = Fin r \<and> 0 < r \<and> r \<le> 10000000"
proof -
  from assms(1) have "\<not> isNaN p" and "\<not> js_gt p (Fin 10000000)"
    by (auto simp: parsePrice_def Let_def split: if_splits)
  with assms(2) show ?thesis
    by (cases p) (auto simp: js_gt_def)
qed

lemma scan_element_inv:
  assumes "\<forall>c\<in>set (fst acc). positive_price c"
  shows "\<forall>c\<in>set (fst (scan_element acc l)). positive_price c"
  using assms parsePrice_range
  by (auto simp: scan_element_def Let_def positive_price_def split: option.splits)

lemma climb_inv:
  assumes "\<forall>c\<in>set (fst acc). positive_price c"
  shows "\<forall>c\<in>set (fst (climb b m anc acc)). positive_price c"
  using assms
proof (induction anc arbitrary: acc)
  case Nil
  then show ?case by simp
next
  case (Cons parent anc)
  show ?case
    using Cons parsePrice_range
    by (auto simp: positive_price_def split: option.splits)
qed

lemma scan_selectors_inv: "\<forall>c\<in>set (fst (scan_selectors doc)). positive_price c"
  unfolding scan_selectors_def
  by (intro foldl_inv [where P = "\<lambda>acc. \<forall>c\<in>set (fst acc). positive_price c"]
        scan_element_inv) simp_all

lemma scan_text_inv:
  assumes "\<forall>c\<in>set (fst acc). positive_price c"
  shows "\<forall>c\<in>set (fst (scan_text doc acc)). positive_price c"
  unfolding scan_text_def
proof (rule foldl_inv [where P = "\<lambda>acc. \<forall>c\<in>set (fst acc). positive_price c"])
  show "\<forall>c\<in>set (fst acc). positive_price c" by (rule assms)
next
  fix a :: found and x :: located
  assume a: "\<forall>c\<in>set (fst a). positive_price c"
  have "\<forall>c\<in>set (fst (foldl (\<lambda>a m. climb (body doc) m (snd x) a) a ms)). positive_price c"
    for ms
    by (rule foldl_inv [where P = "\<lambda>acc. \<forall>c\<in>set (fst acc). positive_price c"])
       (simp_all add: a climb_inv)
  then show "\<forall>c\<in>set (fst (scan_text_node (body doc) a x)). positive_price c"
    unfolding scan_text_node_def Let_def using a by simp
qed

text \<open>
  Claim C9.  Every candidate \<^verbatim>\<open>detectPrices\<close> returns has a strictly positive price, a
  finite number of at most ten million, although \<^verbatim>\<open>parsePrice\<close> itself returns 0 for
  the text \<^verbatim>\<open>$0\<close>.
\<close>

theorem detectPrices_positive:
  "(\<forall>c\<in>set (detectPrices doc). \<exists>r. price c = Fin r \<and> 0 < r \<and> r \<le> 10000000)
   \<and> parsePrice (js ''$0'') None = Some (Fin 0)"
proof -
  have "parsePrice (js ''$0'') None = Some (Fin 0)"
    by code_simp
  then show ?thesis
    using scan_text_inv [OF scan_selectors_inv, of doc] unique_by_element_subset
    unfolding detectPrices_def positive_price_def by blast
qed

text \<open>
  The candidates of the page with two prices.
\<close>

theorem detectPrices_positive_witness:
  "map price (detectPrices two_prices_page) = [Fin 10, Fin 5]
   \<and> (\<exists>r. price (hd (detectPrices two_prices_page)) = Fin r \<and> 0 < r \<and> r \<le> 10000000)"
proof -
  have prices: "map price (detectPrices two_prices_page) = [Fin 10, Fin 5]"
    by code_simp
  then have "hd (detectPrices two_prices_page) \<in> set (detectPrices two_prices_page)"
    by (cases "detectPrices two_prices_page") simp_all
  then show ?thesis
    using detectPrices_positive [of two_prices_page] prices by blast
qed

section \<open>Properties of the site classifier\<close>

lemma isShoppingSite_amazon:
  "list_ex (\<lambda>site. js_includes (toLowerCase (js ''www.amazon.com'')) site) SHOPPING_SITES"
  by code_simp

lemma isShoppingSite_news:
  "\<not> list_ex (\<lambda>site. js_includes (toLowerCase (js ''news.example.com'')) site) SHOPPING_SITES"
  "\<not> list_ex (\<lambda>keyword. js_includes (toLowerCase (js ''news.example.com'')) keyword
                 \<or> js_includes (toLowerCase (js ''/article'')) keyword) SHOPPING_KEYWORDS"
  by code_simp+

text \<open>
  Claim C8.  \<^verbatim>\<open>isShoppingSite\<close> returns a boolean for every string and whatever the
  \<^verbatim>\<open>URL\<close> constructor does with it: an address the constructor rejects gives
  \<^verbatim>\<open>false\<close>, no exception leaves the function.  With the host name and path the
  constructor reads from them, \<^verbatim>\<open>https://www.amazon.com/dp/X\<close> is a shopping site and
  \<^verbatim>\<open>https://news.example.com/article\<close> is not; \<^verbatim>\<open>not a url\<close>, which the constructor
  rejects, is not.
\<close>

theorem isShoppingSite_total:
  "(\<exists>b. isShoppingSite new_URL address = Inr b)
   \<and> (new_URL address = Inl err \<longrightarrow> isShoppingSite new_URL address = Inr False)
   \<and> (new_URL (js ''https://www.amazon.com/dp/X'')
        = Inr \<lparr>hostname = js ''www.amazon.com'', pathname = js ''/dp/X''\<rparr>
      \<longrightarrow> isShoppingSite new_URL (js ''https://www.amazon.com/dp/X'') = Inr True)
   \<and> (new_URL (js ''https://news.example.com/article'')
        = Inr \<lparr>hostname = js ''news.example.com'', pathname = js ''/article''\<rparr>
      \<longrightarrow> isShoppingSite new_URL (js ''https://news.example.com/article'') = Inr False)
   \<and> (new_URL (js ''not a url'') = Inl TypeError
      \<longrightarrow> isShoppingSite new_URL (js ''not a url'') = Inr False)"
proof -
  have total: "\<exists>b. isShoppingSite new_URL address = Inr b"
    by (cases "isShoppingSite_try new_URL address") (auto simp: isShoppingSite_def)
  have rejected: "new_URL a = Inl e \<longrightarrow> isShoppingSite new_URL a = Inr False" for a e
    by (simp add: isShoppingSite_def isShoppingSite_try_def)
  have amazon: "new_URL (js ''https://www.amazon.com/dp/X'')
        = Inr \<lparr>hostname = js ''www.amazon.com'', pathname = js ''/dp/X''\<rparr>
      \<longrightarrow> isShoppingSite new_URL (js ''https://www.amazon.com/dp/X'') = Inr True"
    using isShoppingSite_amazon by (simp add: isShoppingSite_def isShoppingSite_try_def)
  have news: "new_URL (js ''https://news.example.com/article'')
        = Inr \<lparr>hostname = js ''news.example.com'', pathname = js ''/article''\<rparr>
      \<longrightarrow> isShoppingSite new_URL (js ''https://news.example.com/article'') = Inr False"
    using isShoppingSite_news by (simp add: isShoppingSite_def isShoppingSite_try_def)
  show ?thesis
    using total rejected amazon news by blast
qed

text \<open>
  The three sample addresses, with a constructor that knows the first two.
\<close>

theorem isShoppingSite_total_witness:
  "isShoppingSite sample_URL (js ''https://www.amazon.com/dp/X'') = Inr True
   \<and> isShoppingSite sample_URL (js ''https://news.example.com/article'') = Inr False
   \<and> isShoppingSite sample_URL (js ''not a url'') = Inr False"
proof -
  have "sample_URL (js ''https://www.amazon.com/dp/X'')
      = Inr \<lparr>hostname = js ''www.amazon.com'', pathname = js ''/dp/X''\<rparr>"
    "sample_URL (js ''https://news.example.com/article'')
      = Inr \<lparr>hostname = js ''news.example.com'', pathname = js ''/article''\<rparr>"
    "sample_URL (js ''not a url'') = Inl TypeError"
    by code_simp+
  then show ?thesis
    using isShoppingSite_total [of sample_URL "js ''not a url''" TypeError] by simp
qed

section \<open>Properties of the presentation controller\<close>











































lemma node_id_update_node:
  "(\<And>m. node_id (g m) = node_id m) \<Longrightarrow> node_id (update_node i g n) = node_id n"
  by (cases n) simp_all

































end
